theory Spec2Isabelle
  imports Complex_Main "HOL-Library.AList"
begin

section \<open>JavaScript numbers\<close>

text \<open>
  Every number of the program is a JavaScript Number, an IEEE-754 binary64 value. A finite
  value is kept as the rational it denotes; the two infinities and NaN are values of their
  own. Negative zero is identified with zero: they differ only in a division by zero and
  in the sign that \<open>toLocaleString\<close> prints.
\<close>

datatype num = Fin rat | PosInf | NegInf | NaN

text \<open>
  The exponent of the binade of a positive rational: \<open>2\<close> to the power
  \<open>floor_log2 a\<close> is at most \<open>a\<close>, the next power is above it.
\<close>

function floor_log2 :: "rat \<Rightarrow> int" where
  "floor_log2 a =
     (if a \<le> 0 then 0
      else if 2 \<le> a then floor_log2 (a / 2) + 1
      else if a < 1 then floor_log2 (a * 2) - 1
      else 0)"
  by pat_completeness auto
termination
proof (relation "measure (\<lambda>a. 2 * nat \<lceil>1 / a\<rceil> + nat \<lfloor>a\<rfloor>)")
  show "wf (measure (\<lambda>a::rat. 2 * nat \<lceil>1 / a\<rceil> + nat \<lfloor>a\<rfloor>))" by simp
next
  fix a :: rat
  assume "\<not> a \<le> 0" "2 \<le> a"
  then have c1: "\<lceil>1 / a\<rceil> = 1" and c2: "\<lceil>1 / (a / 2)\<rceil> = 1"
    by (auto simp: ceiling_eq_iff field_simps)
  have "\<lfloor>a / 2\<rfloor> < \<lfloor>a\<rfloor>" using \<open>2 \<le> a\<close> by linarith
  moreover have "0 \<le> \<lfloor>a / 2\<rfloor>" using \<open>2 \<le> a\<close> by simp
  ultimately have "nat \<lfloor>a / 2\<rfloor> < nat \<lfloor>a\<rfloor>" by linarith
  then show "(a / 2, a) \<in> measure (\<lambda>a. 2 * nat \<lceil>1 / a\<rceil> + nat \<lfloor>a\<rfloor>)"
    unfolding in_measure c1 c2 by linarith
next
  fix a :: rat
  assume h: "\<not> a \<le> 0" "\<not> 2 \<le> a" "a < 1"
  then have "1 < 1 / a" by (simp add: field_simps)
  then have "2 \<le> \<lceil>1 / a\<rceil>" by linarith
  have "1 / (a * 2) = (1 / a) / 2" by simp
  then have "1 / (a * 2) \<le> of_int \<lceil>1 / a\<rceil> / 2" 
    by (simp add: divide_right_mono)
  also have "\<dots> \<le> of_int (\<lceil>1 / a\<rceil> - 1)" using \<open>2 \<le> \<lceil>1 / a\<rceil>\<close> by simp
  finally have "\<lceil>1 / (a * 2)\<rceil> \<le> \<lceil>1 / a\<rceil> - 1" by (rule ceiling_le)
  then have m1: "nat \<lceil>1 / (a * 2)\<rceil> + 1 \<le> nat \<lceil>1 / a\<rceil>"
    using \<open>2 \<le> \<lceil>1 / a\<rceil>\<close> by linarith
  have "\<lfloor>a\<rfloor> = 0" using h by (simp add: floor_eq_iff)
  then have m2: "nat \<lfloor>a\<rfloor> = 0" by simp
  have "a * 2 < 2" using h by simp
  then have "\<lfloor>a * 2\<rfloor> < 2" by (simp add: floor_less_iff)
  then have m3: "nat \<lfloor>a * 2\<rfloor> \<le> 1" by linarith
  show "(a * 2, a) \<in> measure (\<lambda>a. 2 * nat \<lceil>1 / a\<rceil> + nat \<lfloor>a\<rfloor>)"
    unfolding in_measure using m1 m2 m3 by linarith
qed

definition pow2 :: "int \<Rightarrow> rat" where
  "pow2 e = (if 0 \<le> e then 2 ^ nat e else 1 / 2 ^ nat (- e))"

definition round_half_even :: "rat \<Rightarrow> int" where
  "round_half_even r =
     (if r - of_int \<lfloor>r\<rfloor> < 1 / 2 then \<lfloor>r\<rfloor>
      else if 1 / 2 < r - of_int \<lfloor>r\<rfloor> then \<lfloor>r\<rfloor> + 1
      else if even \<lfloor>r\<rfloor> then \<lfloor>r\<rfloor> else \<lfloor>r\<rfloor> + 1)"

text \<open>The multiple of \<open>pow2 q\<close> nearest to \<open>a\<close>, a tie going to the even multiple.\<close>

definition round_to :: "int \<Rightarrow> rat \<Rightarrow> rat" where
  "round_to q a = of_int (round_half_even (a / pow2 q)) * pow2 q"

definition overflow :: "rat \<Rightarrow> rat \<Rightarrow> num" where
  "overflow x r =
     (if 2 ^ 1024 \<le> r then (if 0 < x then PosInf else NegInf) else Fin (sgn x * r))"

text \<open>
  Rounding of an exact result to binary64, to nearest with ties to even: 53 significant
  bits, the least exponent of a unit in the last place \<open>-1074\<close> (subnormals), and overflow
  to an infinity once the rounded magnitude reaches \<open>2 ^ 1024\<close>.
\<close>

definition fl :: "rat \<Rightarrow> num" where
  "fl x = overflow x (round_to (max (floor_log2 \<bar>x\<bar> - 52) (- 1074)) \<bar>x\<bar>)"

text \<open>A decimal literal of the source text, such as \<open>0.8\<close>, is the double nearest to it.\<close>

definition lit :: "rat \<Rightarrow> num" where
  "lit x = fl x"

fun jneg :: "num \<Rightarrow> num" where
  "jneg (Fin a) = Fin (- a)"
| "jneg PosInf = NegInf"
| "jneg NegInf = PosInf"
| "jneg NaN = NaN"

fun jadd :: "num \<Rightarrow> num \<Rightarrow> num" where
  "jadd NaN _ = NaN"
| "jadd _ NaN = NaN"
| "jadd (Fin a) (Fin b) = fl (a + b)"
| "jadd PosInf NegInf = NaN"
| "jadd NegInf PosInf = NaN"
| "jadd PosInf _ = PosInf"
| "jadd NegInf _ = NegInf"
| "jadd (Fin a) b = b"

definition jsub :: "num \<Rightarrow> num \<Rightarrow> num" where
  "jsub a b = jadd a (jneg b)"

text \<open>The sign of a value that is not NaN: \<open>-1\<close>, \<open>0\<close> or \<open>1\<close>.\<close>

fun jsgn :: "num \<Rightarrow> rat" where
  "jsgn (Fin a) = sgn a"
| "jsgn PosInf = 1"
| "jsgn NegInf = - 1"
| "jsgn NaN = 0"

definition signed_inf :: "rat \<Rightarrow> num" where
  "signed_inf s = (if s = 0 then NaN else if 0 < s then PosInf else NegInf)"

fun jmul :: "num \<Rightarrow> num \<Rightarrow> num" where
  "jmul NaN _ = NaN"
| "jmul _ NaN = NaN"
| "jmul (Fin a) (Fin b) = fl (a * b)"
| "jmul a b = signed_inf (jsgn a * jsgn b)"

fun jdiv :: "num \<Rightarrow> num \<Rightarrow> num" where
  "jdiv NaN _ = NaN"
| "jdiv _ NaN = NaN"
| "jdiv (Fin a) (Fin b) = (if b = 0 then signed_inf (sgn a) else fl (a / b))"
| "jdiv (Fin a) _ = Fin 0"
| "jdiv a (Fin b) = (if b = 0 then a else signed_inf (jsgn a * sgn b))"
| "jdiv _ _ = NaN"

text \<open>ToBoolean on a number: \<open>0\<close> and NaN are falsy.\<close>

fun truthy :: "num \<Rightarrow> bool" where
  "truthy (Fin a) = (a \<noteq> 0)"
| "truthy NaN = False"
| "truthy _ = True"

text \<open>\<open>a || b\<close> on numbers.\<close>

definition or_else :: "num \<Rightarrow> num \<Rightarrow> num" where
  "or_else a b = (if truthy a then a else b)"

section \<open>Number formatting\<close>

fun digits :: "nat \<Rightarrow> string" where
  "digits n = (if n < 10 then [''0123456789'' ! n] else digits (n div 10) @ [''0123456789'' ! (n mod 10)])"

fun group2 :: "string \<Rightarrow> string" where
  "group2 (a # b # c # r) = a # b # CHR '','' # group2 (c # r)"
| "group2 r = r"

text \<open>
  The grouping of the locale \<open>en-IN\<close>: the last three digits, then groups of two
  (\<open>12,34,567\<close>). The argument and the result are digit strings, most significant first.
\<close>

definition group_enIN :: "string \<Rightarrow> string" where
  "group_enIN s =
     (let r = rev s
      in if length r \<le> 3 then s else rev (take 3 r @ CHR '','' # group2 (drop 3 r)))"

text \<open>
  The exponent of the decade of a positive rational: \<open>10\<close> to the power
  \<open>floor_log10 a\<close> is at most \<open>a\<close>, the next power is above it.
\<close>

function floor_log10 :: "rat \<Rightarrow> int" where
  "floor_log10 a =
     (if a \<le> 0 then 0
      else if 10 \<le> a then floor_log10 (a / 10) + 1
      else if a < 1 then floor_log10 (a * 10) - 1
      else 0)"
  by pat_completeness auto
termination
proof (relation "measure (\<lambda>a. 10 * nat \<lceil>1 / a\<rceil> + nat \<lfloor>a\<rfloor>)")
  show "wf (measure (\<lambda>a::rat. 10 * nat \<lceil>1 / a\<rceil> + nat \<lfloor>a\<rfloor>))" by simp
next
  fix a :: rat
  assume "\<not> a \<le> 0" "10 \<le> a"
  then have c1: "\<lceil>1 / a\<rceil> = 1" and c2: "\<lceil>1 / (a / 10)\<rceil> = 1"
    by (auto simp: ceiling_eq_iff field_simps)
  have "\<lfloor>a / 10\<rfloor> < \<lfloor>a\<rfloor>" using \<open>10 \<le> a\<close> by linarith
  moreover have "0 \<le> \<lfloor>a / 10\<rfloor>" using \<open>10 \<le> a\<close> by simp
  ultimately have "nat \<lfloor>a / 10\<rfloor> < nat \<lfloor>a\<rfloor>" by linarith
  then show "(a / 10, a) \<in> measure (\<lambda>a. 10 * nat \<lceil>1 / a\<rceil> + nat \<lfloor>a\<rfloor>)"
    unfolding in_measure c1 c2 by linarith
next
  fix a :: rat
  assume h: "\<not> a \<le> 0" "\<not> 10 \<le> a" "a < 1"
  then have "1 < 1 / a" by (simp add: field_simps)
  then have two: "2 \<le> \<lceil>1 / a\<rceil>" by linarith
  have "1 / (a * 10) = (1 / a) / 10" by simp
  then have "1 / (a * 10) \<le> of_int \<lceil>1 / a\<rceil> / 10"
    by (simp add: divide_right_mono)
  also have "\<dots> \<le> of_int (\<lceil>1 / a\<rceil> - 1)"
  proof -
    have "(2::rat) \<le> of_int \<lceil>1 / a\<rceil>" using two by linarith
    then show ?thesis by linarith
  qed
  finally have "\<lceil>1 / (a * 10)\<rceil> \<le> \<lceil>1 / a\<rceil> - 1" by (rule ceiling_le)
  then have m1: "nat \<lceil>1 / (a * 10)\<rceil> + 1 \<le> nat \<lceil>1 / a\<rceil>"
    using two by linarith
  have "\<lfloor>a\<rfloor> = 0" using h by (simp add: floor_eq_iff)
  then have m2: "nat \<lfloor>a\<rfloor> = 0" by simp
  have "a * 10 < 10" using h by simp
  then have "\<lfloor>a * 10\<rfloor> < 10" by (simp add: floor_less_iff)
  then have m3: "nat \<lfloor>a * 10\<rfloor> \<le> 9" by linarith
  show "(a * 10, a) \<in> measure (\<lambda>a. 10 * nat \<lceil>1 / a\<rceil> + nat \<lfloor>a\<rfloor>)"
    unfolding in_measure using m1 m2 m3 by linarith
qed

definition pow10 :: "int \<Rightarrow> rat" where
  "pow10 e = (if 0 \<le> e then 10 ^ nat e else 1 / 10 ^ nat (- e))"

text \<open>
  The digits that JavaScript prints for a positive double \<open>x\<close> are those of the shortest
  decimal \<open>s * 10 ^ e\<close> that rounds to \<open>x\<close>. With \<open>k\<close> digits the two decimals next to
  \<open>x\<close> are tried; when both round to \<open>x\<close> the nearer is taken, the even one on a tie.
\<close>

definition rounds_to :: "rat \<Rightarrow> int \<Rightarrow> int \<Rightarrow> bool" where
  "rounds_to x s e = (fl (of_int s * pow10 e) = Fin x)"

definition pick :: "rat \<Rightarrow> int \<Rightarrow> int \<Rightarrow> int option" where
  "pick x s e =
     (if rounds_to x s e \<and> rounds_to x (s + 1) e
      then (if x - of_int s * pow10 e < of_int (s + 1) * pow10 e - x then Some s
            else if of_int (s + 1) * pow10 e - x < x - of_int s * pow10 e then Some (s + 1)
            else if even s then Some s else Some (s + 1))
      else if rounds_to x s e then Some s
      else if rounds_to x (s + 1) e then Some (s + 1)
      else None)"

text \<open>A carry into a further digit, as from \<open>99\<close> to \<open>100\<close>, moves the decimal point.\<close>

definition normal :: "nat \<Rightarrow> int \<Rightarrow> int \<Rightarrow> int \<times> int" where
  "normal k s n = (if s = 10 ^ k then (10 ^ (k - 1), n + 1) else (s, n))"

text \<open>
  \<open>shortest x\<close> is the pair \<open>(s, n)\<close> of the digits and the position of the decimal
  point: \<open>x\<close> prints as the digits of \<open>s\<close> scaled to lie in \<open>10 ^ (n - 1) \<le> \<dots> < 10 ^ n\<close>.
  Seventeen digits are enough for every double.
\<close>

function shortest_from :: "rat \<Rightarrow> int \<Rightarrow> nat \<Rightarrow> int \<times> int" where
  "shortest_from x n k =
     (if 17 < k then (\<lfloor>x / pow10 (n - int k)\<rfloor>, n)
      else case pick x \<lfloor>x / pow10 (n - int k)\<rfloor> (n - int k) of
             Some s \<Rightarrow> normal k s n
           | None \<Rightarrow> shortest_from x n (Suc k))"
  by pat_completeness auto
termination
  by (relation "measure (\<lambda>(x, n, k). 18 - k)") auto

definition shortest :: "rat \<Rightarrow> int \<times> int" where
  "shortest x = shortest_from x (floor_log10 x + 1) 1"

text \<open>
  The layout of \<open>Number.prototype.toString\<close> for the digits \<open>ds\<close> and the position \<open>n\<close>
  of the decimal point: plain digits up to \<open>10 ^ 21\<close>, a leading \<open>0.\<close> down to
  \<open>10 ^ -6\<close>, the exponent form otherwise.
\<close>

definition layout :: "string \<Rightarrow> int \<Rightarrow> string" where
  "layout ds n =
     (if int (length ds) \<le> n \<and> n \<le> 21 then ds @ replicate (nat n - length ds) CHR ''0''
      else if 0 < n \<and> n \<le> 21 then take (nat n) ds @ ''.'' @ drop (nat n) ds
      else if - 6 < n \<and> n \<le> 0 then ''0.'' @ replicate (nat (- n)) CHR ''0'' @ ds
      else (if length ds = 1 then ds else take 1 ds @ ''.'' @ drop 1 ds)
           @ ''e'' @ (if n - 1 < 0 then ''-'' else ''+'') @ digits (nat \<bar>n - 1\<bar>))"

text \<open>The conversion of a number to a string, as in \<open>String(7)\<close> or a template literal.\<close>

fun number_to_string :: "num \<Rightarrow> string" where
  "number_to_string (Fin a) =
     (if a = 0 then ''0''
      else (if a < 0 then ''-'' else [])
           @ layout (digits (nat (fst (shortest \<bar>a\<bar>)))) (snd (shortest \<bar>a\<bar>)))"
| "number_to_string PosInf = ''Infinity''"
| "number_to_string NegInf = ''-Infinity''"
| "number_to_string NaN = ''NaN''"

text \<open>
  The digits of a double of magnitude \<open>2 ^ 53\<close> or more, which is an integer, written
  out in full: the shortest digits, then zeros.
\<close>

definition integer_digits :: "rat \<Rightarrow> string" where
  "integer_digits x =
     digits (nat (fst (shortest x)))
     @ replicate (nat (snd (shortest x)) - length (digits (nat (fst (shortest x))))) CHR ''0''"

text \<open>
  \<open>n.toLocaleString("en-IN", { maximumFractionDigits: 0 })\<close>: the value is rounded to an
  integer, a tie away from zero, and a negative value keeps its sign. Below \<open>2 ^ 53\<close> the
  digits are those of the rounded value; from there on every double is an integer and
  prints with its shortest digits. The infinity sign is given by its UTF-8 bytes. Negative
  zero, which prints as \<open>-0\<close>, is not a value of \<open>num\<close>.
\<close>

fun toLocaleString :: "num \<Rightarrow> string" where
  "toLocaleString (Fin a) =
     (if a < 0 then ''-'' else [])
     @ group_enIN (if \<bar>a\<bar> < 2 ^ 53 then digits (nat \<lfloor>\<bar>a\<bar> + 1 / 2\<rfloor>)
                   else integer_digits \<bar>a\<bar>)"
| "toLocaleString PosInf = [CHR 0xE2, CHR 0x88, CHR 0x9E]"
| "toLocaleString NegInf = ''-'' @ [CHR 0xE2, CHR 0x88, CHR 0x9E]"
| "toLocaleString NaN = ''NaN''"

text \<open>The rupee sign U+20B9, as UTF-8 bytes.\<close>

definition rupee :: string where
  "rupee = [CHR 0xE2, CHR 0x82, CHR 0xB9]"

definition fmt :: "num \<Rightarrow> string" where
  "fmt n = rupee @ toLocaleString n"

section \<open>Transactions and the analytics helper\<close>

record transaction =
  t_date :: string
  t_desc :: string
  t_amount :: num
  t_type :: string
  t_category :: string

definition txn :: "string \<Rightarrow> string \<Rightarrow> rat \<Rightarrow> string \<Rightarrow> string \<Rightarrow> transaction" where
  "txn d s a ty c = \<lparr>t_date = d, t_desc = s, t_amount = lit a, t_type = ty, t_category = c\<rparr>"

text \<open>The em dash U+2014 and the letter U+00E9 of two descriptions, as UTF-8 bytes.\<close>

definition emdash :: string where
  "emdash = [CHR 0xE2, CHR 0x80, CHR 0x94]"

definition eacute :: string where
  "eacute = [CHR 0xC3, CHR 0xA9]"

definition MOCK_TRANSACTIONS :: "transaction list" where
  "MOCK_TRANSACTIONS =
    [txn ''2026-10-01'' ''Zomato Bangalore'' 685 ''Debit'' ''Dining & Local Eats'',
     txn ''2026-10-02'' (''Salary Payout '' @ emdash @ '' Oct'') 100253 ''Credit'' ''Income'',
     txn ''2026-10-03'' ''Varalakshi Tiffins'' 180 ''Debit'' ''Dining & Local Eats'',
     txn ''2026-10-04'' ''Zerodha Buy Order'' 15000 ''Debit'' ''Investments'',
     txn ''2026-10-05'' ''Ola Cabs'' 340 ''Debit'' ''Commute & Transport'',
     txn ''2026-10-06'' ''YouTube Premium'' 189 ''Debit'' ''Subscriptions'',
     txn ''2026-10-07'' (''Rameshwaram Caf'' @ eacute) 520 ''Debit'' ''Dining & Local Eats'',
     txn ''2026-10-08'' ''BESCOM Electric Bill'' 1200 ''Debit'' ''Utilities & Housing'',
     txn ''2026-10-09'' ''Amazon Order'' 2340 ''Debit'' ''Shopping & Lifestyle'',
     txn ''2026-10-10'' ''Google One Storage'' 130 ''Debit'' ''Subscriptions'',
     txn ''2026-10-11'' ''Namma Metro Recharge'' 500 ''Debit'' ''Commute & Transport'',
     txn ''2026-10-12'' ''Swiggy Order'' 430 ''Debit'' ''Dining & Local Eats'',
     txn ''2026-10-13'' ''LIC Premium'' 4500 ''Debit'' ''Insurance & Protection'',
     txn ''2026-10-14'' ''Spotify Premium'' 119 ''Debit'' ''Subscriptions'',
     txn ''2026-10-15'' ''Rapido Bike'' 95 ''Debit'' ''Commute & Transport'',
     txn ''2026-10-16'' ''Blinkit Groceries'' 1640 ''Debit'' ''Dining & Local Eats'',
     txn ''2026-10-17'' ''Groww MF SIP'' 5000 ''Debit'' ''Investments'',
     txn ''2026-10-18'' ''Netflix Subscription'' 649 ''Debit'' ''Subscriptions'',
     txn ''2026-10-19'' (''PhonePe UPI '' @ emdash @ '' Mom'') 3000 ''Debit'' ''Family & Transfers'',
     txn ''2026-10-20'' ''BBMP Property Tax'' 6200 ''Debit'' ''Utilities & Housing'']"

text \<open>\<open>xs.reduce((s, t) => s + t.amount, 0)\<close>.\<close>

definition sum_amounts :: "transaction list \<Rightarrow> num" where
  "sum_amounts xs = foldl (\<lambda>s t. jadd s (t_amount t)) (Fin 0) xs"

text \<open>
  The object \<open>catMap\<close> is an association list in insertion order, the order in which
  \<open>Object.entries\<close> lists string keys that are not array indices. One step of the
  \<open>forEach\<close>: \<open>catMap[t.category] = (catMap[t.category] || 0) + t.amount\<close>.
\<close>

definition catMap_step :: "(string \<times> num) list \<Rightarrow> transaction \<Rightarrow> (string \<times> num) list" where
  "catMap_step m t =
     AList.update (t_category t)
       (jadd (case map_of m (t_category t) of None \<Rightarrow> Fin 0 | Some v \<Rightarrow> or_else v (Fin 0))
             (t_amount t)) m"

definition catMap_of :: "transaction list \<Rightarrow> (string \<times> num) list" where
  "catMap_of debits = foldl catMap_step [] debits"

text \<open>
  \<open>Array.prototype.sort\<close> with a comparator is stable: \<open>x\<close> stays in front of \<open>y\<close>
  unless the comparator's result is positive. A NaN result counts as zero.
\<close>

fun cmp_positive :: "num \<Rightarrow> bool" where
  "cmp_positive (Fin a) = (0 < a)"
| "cmp_positive PosInf = True"
| "cmp_positive _ = False"

fun insert_by :: "('a \<Rightarrow> 'a \<Rightarrow> num) \<Rightarrow> 'a \<Rightarrow> 'a list \<Rightarrow> 'a list" where
  "insert_by cmp x [] = [x]"
| "insert_by cmp x (y # ys) =
     (if cmp_positive (cmp x y) then y # insert_by cmp x ys else x # y # ys)"

definition sort_by :: "('a \<Rightarrow> 'a \<Rightarrow> num) \<Rightarrow> 'a list \<Rightarrow> 'a list" where
  "sort_by cmp xs = foldr (insert_by cmp) xs []"

text \<open>The line \<open>const surplus = balance - balance * 0.2\<close> of \<open>computeAnalytics\<close>.\<close>

definition analytics_surplus :: "num \<Rightarrow> num" where
  "analytics_surplus b = jsub b (jmul b (lit (2 / 10)))"

record analytics =
  totalBurn :: num
  totalIncome :: num
  an_balance :: num
  an_surplus :: num
  an_categories :: "(string \<times> num) list"
  subs :: "transaction list"
  subTotal :: num

definition computeAnalytics :: "transaction list \<Rightarrow> analytics" where
  "computeAnalytics txns =
     (let debits = filter (\<lambda>t. t_type t = ''Debit'') txns;
          credits = filter (\<lambda>t. t_type t = ''Credit'') txns;
          totalBurn = sum_amounts debits;
          totalIncome = sum_amounts credits;
          balance = jsub totalIncome totalBurn;
          surplus = analytics_surplus balance;
          catMap = catMap_of debits;
          categories = sort_by (\<lambda>a b. jsub (snd b) (snd a)) catMap;
          subs = filter (\<lambda>t. t_category t = ''Subscriptions'') debits;
          subTotal = sum_amounts subs
      in \<lparr>totalBurn = totalBurn, totalIncome = totalIncome, an_balance = balance,
          an_surplus = surplus, an_categories = categories, subs = subs, subTotal = subTotal\<rparr>)"

section \<open>The Analysis Result\<close>

record idle_cash =
  monthly_burn :: num
  total_income :: num
  balance :: num
  investable_surplus :: num
  recommendation :: string

record category =
  c_name :: string
  c_total :: num
  c_count :: num
  c_pct_of_spend :: num

record subscription =
  s_desc :: string
  s_amount :: num
  s_date :: string

record analysis =
  transactions :: "transaction list"
  transaction_count :: nat
  period :: string
  idle_cash :: idle_cash
  categories :: "category list"
  subscriptions :: "subscription list"

text \<open>
  A JSON value, as the member \<open>detail\<close> of an error body can be: of any type.
\<close>

datatype jval =
  VNull | VBool bool | VNum num | VStr string | VArr "jval list" | VObj "(string \<times> jval) list"

text \<open>ToBoolean: \<open>null\<close>, \<open>false\<close>, \<open>0\<close> and the empty string are falsy.\<close>

fun jtruthy :: "jval \<Rightarrow> bool" where
  "jtruthy VNull = False"
| "jtruthy (VBool b) = b"
| "jtruthy (VNum n) = truthy n"
| "jtruthy (VStr s) = (s \<noteq> [])"
| "jtruthy (VArr _) = True"
| "jtruthy (VObj _) = True"

fun join :: "string list \<Rightarrow> string" where
  "join [] = []"
| "join [x] = x"
| "join (x # y # r) = x @ CHR '','' # join (y # r)"

text \<open>
  ToString, which \<open>new Error(err.detail)\<close> applies to its argument: an array is the join
  of its elements, \<open>null\<close> elements being empty, and an object is \<open>[object Object]\<close>.
\<close>

fun to_string :: "jval \<Rightarrow> string" and element_string :: "jval \<Rightarrow> string" where
  "to_string VNull = ''null''"
| "to_string (VBool b) = (if b then ''true'' else ''false'')"
| "to_string (VNum n) = number_to_string n"
| "to_string (VStr s) = s"
| "to_string (VArr vs) = join (map element_string vs)"
| "to_string (VObj _) = ''[object Object]''"
| "element_string v = (case v of VNull \<Rightarrow> [] | _ \<Rightarrow> to_string v)"

text \<open>
  A value as \<open>response.json()\<close> yields it and as the state \<open>analysisData\<close> holds it:
  \<open>null\<close>, a falsy primitive (\<open>0\<close>, \<open>""\<close>, \<open>false\<close>), an object of the shape of an
  Analysis Result, or any other value, which is given by its member \<open>detail\<close>
  (\<open>None\<close> when it has none): nothing else of such a value is ever read.
\<close>

datatype json = JNull | JFalsy | JAnalysis analysis | JOther "jval option"

section \<open>Dashboard\<close>

text \<open>
  The fallback of \<open>Dashboard\<close> when \<open>data\<close> is falsy: the summary of a transaction list,
  which the source applies to \<open>MOCK_TRANSACTIONS\<close>.
\<close>

text \<open>The line \<open>const surplus = balance * 0.8\<close> of the fallback.\<close>

definition mock_surplus :: "num \<Rightarrow> num" where
  "mock_surplus b = jmul b (lit (8 / 10))"

definition mock_recommendation :: "num \<Rightarrow> string" where
  "mock_recommendation surplus =
     ''You have '' @ rupee @ toLocaleString surplus
     @ '' in investable surplus. Moving to a Liquid Fund could yield 7% annually vs 3% in savings.''"

definition mock_analysis :: "transaction list \<Rightarrow> analysis" where
  "mock_analysis mock =
     (let debits = filter (\<lambda>t. t_type t = ''Debit'') mock;
          credits = filter (\<lambda>t. t_type t = ''Credit'') mock;
          totalBurn = sum_amounts debits;
          totalIncome = sum_amounts credits;
          balance = jsub totalIncome totalBurn;
          surplus = mock_surplus balance;
          catMap = catMap_of debits
      in \<lparr>transactions = mock,
          transaction_count = length mock,
          period = ''October 2026'',
          idle_cash = \<lparr>monthly_burn = totalBurn, total_income = totalIncome, balance = balance,
                        investable_surplus = surplus,
                        recommendation = mock_recommendation surplus\<rparr>,
          categories =
            sort_by (\<lambda>a b. jsub (c_total b) (c_total a))
              (map (\<lambda>(name, total).
                      \<lparr>c_name = name, c_total = total, c_count = Fin 1,
                       c_pct_of_spend = jmul (jdiv total totalBurn) (Fin 100)\<rparr>) catMap),
          subscriptions =
            map (\<lambda>t. \<lparr>s_desc = t_desc t, s_amount = t_amount t, s_date = t_date t\<rparr>)
              (filter (\<lambda>t. t_category t = ''Subscriptions'') mock)\<rparr>)"

text \<open>
  \<open>const analysis = data || (...)\<close>, then the destructuring of \<open>idle_cash\<close>: a truthy
  value that is not an Analysis Result has no member \<open>idle_cash\<close>, and reading
  \<open>monthly_burn\<close> of \<open>undefined\<close> throws.
\<close>

datatype render_error = TypeError

definition Dashboard_analysis :: "json \<Rightarrow> render_error + analysis" where
  "Dashboard_analysis data =
     (case data of
        JNull \<Rightarrow> Inr (mock_analysis MOCK_TRANSACTIONS)
      | JFalsy \<Rightarrow> Inr (mock_analysis MOCK_TRANSACTIONS)
      | JAnalysis a \<Rightarrow> Inr a
      | JOther _ \<Rightarrow> Inl TypeError)"

text \<open>\<open>const maxCat = categories[0]?.total || 1\<close>.\<close>

definition maxCat :: "category list \<Rightarrow> num" where
  "maxCat cs = (case cs of [] \<Rightarrow> Fin 1 | c # _ \<Rightarrow> or_else (c_total c) (Fin 1))"

record kpi =
  k_label :: string
  k_value :: string
  k_note :: string

definition kpis :: "idle_cash \<Rightarrow> kpi list" where
  "kpis ic =
     [\<lparr>k_label = ''Monthly Income'', k_value = fmt (total_income ic), k_note = ''All credits''\<rparr>,
      \<lparr>k_label = ''Monthly Burn'', k_value = fmt (monthly_burn ic),
       k_note = ''All debit transactions''\<rparr>,
      \<lparr>k_label = ''Net Balance'', k_value = fmt (balance ic), k_note = ''Income minus burn''\<rparr>,
      \<lparr>k_label = ''Investable Surplus'', k_value = fmt (investable_surplus ic),
       k_note = ''After 20% safety buffer''\<rparr>]"

text \<open>
  The number in the style \<open>width: `${(c.total / maxCat) * 100}%`\<close> of one bar, and the bars of
  the category list in its order.
\<close>

definition cat_bar_width :: "num \<Rightarrow> category \<Rightarrow> num" where
  "cat_bar_width m c = jmul (jdiv (c_total c) m) (Fin 100)"

definition cat_bars :: "category list \<Rightarrow> num list" where
  "cat_bars cs = map (cat_bar_width (maxCat cs)) cs"

text \<open>
  The text of the insight "Top Spend Bucket". \<open>toFixed1\<close> stands for the method
  \<open>Number.prototype.toFixed\<close> at one fraction digit, which the platform provides.
\<close>

definition top_spend_text :: "(num \<Rightarrow> string) \<Rightarrow> category list \<Rightarrow> string" where
  "top_spend_text toFixed1 cs =
     (case cs of
        [] \<Rightarrow> ''No spending patterns detected yet.''
      | c # _ \<Rightarrow>
          ''<strong>'' @ c_name c @ ''</strong> is your largest category at <strong>''
          @ fmt (c_total c) @ ''</strong> '' @ emdash @ '' <strong>''
          @ toFixed1 (c_pct_of_spend c) @ ''%</strong> of total outgoings.'')"

record view =
  v_kpis :: "kpi list"
  v_maxCat :: num
  v_subTotal :: num
  v_bars :: "num list"
  v_top_spend :: string

definition Dashboard :: "(num \<Rightarrow> string) \<Rightarrow> json \<Rightarrow> render_error + view" where
  "Dashboard toFixed1 data =
     (case Dashboard_analysis data of
        Inl e \<Rightarrow> Inl e
      | Inr a \<Rightarrow>
          Inr \<lparr>v_kpis = kpis (idle_cash a),
               v_maxCat = maxCat (categories a),
               v_subTotal = foldl (\<lambda>s t. jadd s (s_amount t)) (Fin 0) (subscriptions a),
               v_bars = cat_bars (categories a),
               v_top_spend = top_spend_text toFixed1 (categories a)\<rparr>)"

text \<open>The value that the KPI card with a given label shows.\<close>

definition kpi_shown :: "string \<Rightarrow> view \<Rightarrow> string option" where
  "kpi_shown l v = map_option k_value (find (\<lambda>k. k_label k = l) (v_kpis v))"

section \<open>UploadStage\<close>

record js_file =
  f_name :: string
  f_type :: string

record upload_state =
  u_file :: "js_file option"
  u_error :: string
  u_over :: bool

text \<open>The state of the three \<open>useState\<close> hooks when the component mounts.\<close>

definition upload_initial :: upload_state where
  "upload_initial = \<lparr>u_file = None, u_error = [], u_over = False\<rparr>"

text \<open>\<open>String.prototype.endsWith\<close>.\<close>

definition endsWith :: "string \<Rightarrow> string \<Rightarrow> bool" where
  "endsWith s suf = (length suf \<le> length s \<and> drop (length s - length suf) s = suf)"

definition unsupported_message :: string where
  "unsupported_message =
     ''Unsupported File Format '' @ emdash @ '' only PDF bank statements accepted.''"

text \<open>The handler \<open>accept\<close>; its argument is \<open>None\<close> when \<open>files[0]\<close> is undefined.\<close>

definition accept :: "js_file option \<Rightarrow> upload_state \<Rightarrow> upload_state" where
  "accept f u =
     (case f of
        None \<Rightarrow> u
      | Some g \<Rightarrow>
          if \<not> endsWith (f_name g) ''.pdf'' \<and> f_type g \<noteq> ''application/pdf''
          then u\<lparr>u_error := unsupported_message, u_file := None\<rparr>
          else u\<lparr>u_error := [], u_file := Some g\<rparr>)"

definition onDrop :: "js_file option \<Rightarrow> upload_state \<Rightarrow> upload_state" where
  "onDrop f u = accept f (u\<lparr>u_over := False\<rparr>)"

text \<open>
  The button: \<open>disabled={!file}\<close> and \<open>onClick={() => file && onAnalyze(file)}\<close>. The
  result of a click is the file handed to \<open>onAnalyze\<close>, if \<open>onAnalyze\<close> is called at all.
\<close>

definition analyze_disabled :: "upload_state \<Rightarrow> bool" where
  "analyze_disabled u = (u_file u = None)"

definition analyze_click :: "upload_state \<Rightarrow> js_file option" where
  "analyze_click u = (case u_file u of None \<Rightarrow> None | Some f \<Rightarrow> Some f)"

section \<open>App\<close>

datatype STAGE = UPLOAD | PARSING | CLASSIFYING | DONE

text \<open>
  The state of \<open>App\<close>, and with it the state of the \<open>UploadStage\<close> that \<open>App\<close> renders
  while \<open>stage === STAGE.UPLOAD\<close>: \<open>None\<close> while the component is not mounted.
\<close>

record app =
  stage :: STAGE
  analysisData :: json
  apiError :: string
  uploadStage :: "upload_state option"

definition App_initial :: app where
  "App_initial =
     \<lparr>stage = UPLOAD, analysisData = JNull, apiError = [], uploadStage = Some upload_initial\<rparr>"

text \<open>
  \<open>setStage\<close> and the render that follows it: \<open>UploadStage\<close> keeps its state while it
  stays mounted, loses it when the stage leaves \<open>UPLOAD\<close>, and mounts afresh on return.
\<close>

definition setStage :: "STAGE \<Rightarrow> app \<Rightarrow> app" where
  "setStage st s =
     s\<lparr>stage := st,
       uploadStage :=
         (if st = UPLOAD
          then (case uploadStage s of None \<Rightarrow> Some upload_initial | Some u \<Rightarrow> Some u)
          else None)\<rparr>"

text \<open>The callback \<open>onReset\<close> handed to \<open>Dashboard\<close>.\<close>

definition onReset :: "app \<Rightarrow> app" where
  "onReset s = (setStage UPLOAD s)\<lparr>analysisData := JNull\<rparr>"

text \<open>
  A response: \<open>body\<close> is what \<open>response.json()\<close> settles to, \<open>Inl\<close> the message of the
  error it rejects with when the body is not JSON. \<open>fetch\<close> itself rejects on a network
  failure.
\<close>

record response =
  ok :: bool
  status :: nat
  body :: "string + json"

datatype fetch_outcome = Rejected string | Resolved response

text \<open>
  What is outside the program: the backend's answer to a file, and the times in
  milliseconds. A timer fires no earlier than its delay; \<open>lag1\<close> and \<open>lag2\<close> are by how
  much the two timers are late.
\<close>

record env =
  fetch :: "js_file \<Rightarrow> fetch_outcome"
  t_fetch :: nat
  t_json :: nat
  lag1 :: nat
  lag2 :: nat

text \<open>
  The message of the TypeError that reading \<open>detail\<close> of \<open>null\<close> throws (the text is
  the engine's; this is V8's).
\<close>

definition null_detail_message :: string where
  "null_detail_message = ''Cannot read properties of null (reading '' @ [CHR 0x27]
     @ ''detail'' @ [CHR 0x27] @ '')''"

text \<open>
  The message of the error thrown for a response that is not \<open>ok\<close>:
  \<open>new Error(err.detail || `Server error ${response.status}`)\<close>, where \<open>err\<close> is the
  parsed body or \<open>{ detail: "Unknown error" }\<close> when parsing fails. A truthy \<open>detail\<close>
  of any type becomes the message by its conversion to a string.
\<close>

definition error_message :: "response \<Rightarrow> string" where
  "error_message r =
     (case (case body r of Inl _ \<Rightarrow> JOther (Some (VStr ''Unknown error'')) | Inr j \<Rightarrow> j) of
        JNull \<Rightarrow> null_detail_message
      | JOther (Some v) \<Rightarrow>
          if jtruthy v then to_string v else ''Server error '' @ digits (status r)
      | _ \<Rightarrow> ''Server error '' @ digits (status r))"

text \<open>The \<open>catch\<close> block.\<close>

definition catch :: "string \<Rightarrow> app \<Rightarrow> app" where
  "catch message s =
     setStage UPLOAD
       (s\<lparr>apiError :=
            (if message \<noteq> [] then message
             else ''Something went wrong. Is the backend running?'')\<rparr>)"

text \<open>
  \<open>handleAnalyze\<close>, started at time \<open>t0\<close>: the states it sets, each with the time at
  which it is set. \<open>Promise.all\<close> resolves when the later of its two promises does and
  rejects as soon as one rejects.
\<close>

definition handleAnalyze :: "env \<Rightarrow> nat \<Rightarrow> js_file \<Rightarrow> app \<Rightarrow> (nat \<times> app) list" where
  "handleAnalyze e t0 f s =
     (let s1 = setStage PARSING (s\<lparr>apiError := []\<rparr>)
      in case fetch e f of
           Rejected message \<Rightarrow> [(t0, s1), (t0 + t_fetch e, catch message s1)]
         | Resolved r \<Rightarrow>
             (let t1 = max (t0 + t_fetch e) (t0 + 1500 + lag1 e);
                  s2 = setStage CLASSIFYING s1
              in if \<not> ok r
                 then [(t0, s1), (t1, s2), (t1 + t_json e, catch (error_message r) s2)]
                 else case body r of
                        Inl message \<Rightarrow> [(t0, s1), (t1, s2), (t1 + t_json e, catch message s2)]
                      | Inr data \<Rightarrow>
                          [(t0, s1), (t1, s2),
                           (max (t1 + t_json e) (t1 + 1000 + lag2 e),
                            setStage DONE (s2\<lparr>analysisData := data\<rparr>))]))"

text \<open>The state in which a run of \<open>handleAnalyze\<close> leaves the application.\<close>

definition final :: "(nat \<times> app) list \<Rightarrow> app" where
  "final tr = snd (last tr)"

text \<open>
  The states the application can be in: from the initial state, by file selections and
  drag events on the mounted \<open>UploadStage\<close>, by the states a run of \<open>handleAnalyze\<close> sets
  after a click on the enabled button, and by a reset from the dashboard.
\<close>

inductive reachable :: "app \<Rightarrow> bool" where
  r_init: "reachable App_initial"
| r_accept: "reachable s \<Longrightarrow> uploadStage s = Some u
    \<Longrightarrow> reachable (s\<lparr>uploadStage := Some (accept f u)\<rparr>)"
| r_over: "reachable s \<Longrightarrow> uploadStage s = Some u
    \<Longrightarrow> reachable (s\<lparr>uploadStage := Some (u\<lparr>u_over := b\<rparr>)\<rparr>)"
| r_analyze: "reachable s \<Longrightarrow> uploadStage s = Some u \<Longrightarrow> analyze_click u = Some f
    \<Longrightarrow> (t, s') \<in> set (handleAnalyze e t0 f s) \<Longrightarrow> reachable s'"
| r_reset: "reachable s \<Longrightarrow> stage s = DONE \<Longrightarrow> reachable (onReset s)"

section \<open>Notions of the specification\<close>

text \<open>The sum of \<open>total\<close> over a category list, added up in the list's order.\<close>

definition sum_totals :: "category list \<Rightarrow> num" where
  "sum_totals cs = foldl (\<lambda>s c. jadd s (c_total c)) (Fin 0) cs"

text \<open>The comparison \<open>a <= b\<close> of two numbers; it is false when one of them is NaN.\<close>

fun jle :: "num \<Rightarrow> num \<Rightarrow> bool" where
  "jle NaN _ = False"
| "jle _ NaN = False"
| "jle (Fin a) (Fin b) = (a \<le> b)"
| "jle NegInf _ = True"
| "jle _ PosInf = True"
| "jle _ _ = False"

text \<open>A category list in which no total is above the first one.\<close>

definition first_is_largest :: "category list \<Rightarrow> bool" where
  "first_is_largest cs =
     (case cs of [] \<Rightarrow> True | c # _ \<Rightarrow> list_all (\<lambda>d. jle (c_total d) (c_total c)) cs)"

text \<open>A category with a given total, and an Analysis Result with given figures.\<close>

definition cat :: "string \<Rightarrow> rat \<Rightarrow> category" where
  "cat n t = \<lparr>c_name = n, c_total = Fin t, c_count = Fin 1, c_pct_of_spend = Fin 0\<rparr>"

definition result_with :: "rat \<Rightarrow> rat \<Rightarrow> rat \<Rightarrow> category list \<Rightarrow> analysis" where
  "result_with income burn bal cs =
     \<lparr>transactions = [], transaction_count = 0, period = ''October 2026'',
      idle_cash = \<lparr>monthly_burn = Fin burn, total_income = Fin income, balance = Fin bal,
                    investable_surplus = Fin 0, recommendation = []\<rparr>,
      categories = cs, subscriptions = []\<rparr>"

text \<open>Two files, a backend that answers every upload at once, and one that refuses.\<close>

definition statement_pdf :: js_file where
  "statement_pdf = \<lparr>f_name = ''statement.pdf'', f_type = ''text/plain''\<rparr>"

definition notes_txt :: js_file where
  "notes_txt = \<lparr>f_name = ''notes.txt'', f_type = ''text/plain''\<rparr>"

definition instant_backend :: "response \<Rightarrow> env" where
  "instant_backend r = \<lparr>fetch = (\<lambda>_. Resolved r), t_fetch = 0, t_json = 0, lag1 = 0, lag2 = 0\<rparr>"

definition ok_response :: response where
  "ok_response = \<lparr>ok = True, status = 200, body = Inr (JAnalysis (result_with 10 3 7 []))\<rparr>"

definition error_response :: "nat \<Rightarrow> jval option \<Rightarrow> response" where
  "error_response n d = \<lparr>ok = False, status = n, body = Inr (JOther d)\<rparr>"

text \<open>The application after \<open>statement.pdf\<close> has been selected on the first screen.\<close>

definition selected :: app where
  "selected = App_initial\<lparr>uploadStage := Some (accept (Some statement_pdf) upload_initial)\<rparr>"

section \<open>The rounding function\<close>

text \<open>
  \<open>floor_log2\<close> finds the binade of a positive rational, \<open>floor_log10\<close> its decade,
  and \<open>round_half_even\<close> is off by at most one half.
\<close>

declare floor_log2.simps [simp del]

declare floor_log10.simps [simp del]

declare shortest_from.simps [simp del]

declare number_to_string.simps [simp del]

declare digits.simps [simp del]

lemma pow2_pos: "0 < pow2 k"
  by (simp add: pow2_def)

lemma pow2_succ: "pow2 (k + 1) = 2 * pow2 k"
proof (cases "0 \<le> k")
  case True
  then have "nat (k + 1) = Suc (nat k)" by simp
  with True show ?thesis by (simp add: pow2_def)
next
  case False
  then have "nat (- k) = Suc (nat (- (k + 1)))" by simp
  with False show ?thesis by (simp add: pow2_def)
qed

lemma floor_log2_bounds:
  "0 < a \<Longrightarrow> pow2 (floor_log2 a) \<le> a \<and> a < pow2 (floor_log2 a + 1)"
proof (induction a rule: floor_log2.induct)
  case (1 a)
  show ?case
  proof (cases "2 \<le> a")
    case True
    then have ih: "pow2 (floor_log2 (a / 2)) \<le> a / 2 \<and> a / 2 < pow2 (floor_log2 (a / 2) + 1)"
      using "1.IH"(1) "1.prems" by simp
    have eq: "floor_log2 a = floor_log2 (a / 2) + 1"
      using True "1.prems" by (subst floor_log2.simps) simp
    show ?thesis
      using ih unfolding eq pow2_succ by simp
  next
    case False
    show ?thesis
    proof (cases "a < 1")
      case True
      then have ih: "pow2 (floor_log2 (a * 2)) \<le> a * 2 \<and> a * 2 < pow2 (floor_log2 (a * 2) + 1)"
        using "1.IH"(2) "1.prems" False by simp
      have eq: "floor_log2 a = floor_log2 (a * 2) - 1"
        using True False "1.prems" by (subst floor_log2.simps) simp
      have p: "pow2 (floor_log2 (a * 2)) = 2 * pow2 (floor_log2 (a * 2) - 1)"
        using pow2_succ [of "floor_log2 (a * 2) - 1"] by simp
      have q: "pow2 (floor_log2 (a * 2) + 1) = 2 * pow2 (floor_log2 (a * 2))"
        by (rule pow2_succ)
      have "pow2 (floor_log2 (a * 2) - 1) \<le> a"
        using ih p by simp
      moreover have "a < pow2 (floor_log2 (a * 2) - 1 + 1)"
        using ih q by simp
      ultimately show ?thesis
        unfolding eq by simp
    next
      case False
      with \<open>\<not> 2 \<le> a\<close> "1.prems" have "floor_log2 a = 0"
        by (subst floor_log2.simps) simp
      with False \<open>\<not> 2 \<le> a\<close> show ?thesis by (simp add: pow2_def)
    qed
  qed
qed

lemma pow10_succ: "pow10 (k + 1) = 10 * pow10 k"
proof (cases "0 \<le> k")
  case True
  then have "nat (k + 1) = Suc (nat k)" by simp
  with True show ?thesis by (simp add: pow10_def)
next
  case False
  then have "nat (- k) = Suc (nat (- (k + 1)))" by simp
  with False show ?thesis by (simp add: pow10_def)
qed

lemma floor_log10_bounds:
  "0 < a \<Longrightarrow> pow10 (floor_log10 a) \<le> a \<and> a < pow10 (floor_log10 a + 1)"
proof (induction a rule: floor_log10.induct)
  case (1 a)
  show ?case
  proof (cases "10 \<le> a")
    case True
    then have ih: "pow10 (floor_log10 (a / 10)) \<le> a / 10
        \<and> a / 10 < pow10 (floor_log10 (a / 10) + 1)"
      using "1.IH"(1) "1.prems" by simp
    have eq: "floor_log10 a = floor_log10 (a / 10) + 1"
      using True "1.prems" by (subst floor_log10.simps) simp
    show ?thesis
      using ih unfolding eq pow10_succ by simp
  next
    case False
    show ?thesis
    proof (cases "a < 1")
      case True
      then have ih: "pow10 (floor_log10 (a * 10)) \<le> a * 10
          \<and> a * 10 < pow10 (floor_log10 (a * 10) + 1)"
        using "1.IH"(2) "1.prems" False by simp
      have eq: "floor_log10 a = floor_log10 (a * 10) - 1"
        using True False "1.prems" by (subst floor_log10.simps) simp
      have p: "pow10 (floor_log10 (a * 10)) = 10 * pow10 (floor_log10 (a * 10) - 1)"
        using pow10_succ [of "floor_log10 (a * 10) - 1"] by simp
      have q: "pow10 (floor_log10 (a * 10) + 1) = 10 * pow10 (floor_log10 (a * 10))"
        by (rule pow10_succ)
      have "pow10 (floor_log10 (a * 10) - 1) \<le> a"
        using ih p by simp
      moreover have "a < pow10 (floor_log10 (a * 10) - 1 + 1)"
        using ih q by simp
      ultimately show ?thesis
        unfolding eq by simp
    next
      case False
      with \<open>\<not> 10 \<le> a\<close> "1.prems" have "floor_log10 a = 0"
        by (subst floor_log10.simps) simp
      with False \<open>\<not> 10 \<le> a\<close> show ?thesis by (simp add: pow10_def)
    qed
  qed
qed

lemma round_half_even_near: "\<bar>of_int (round_half_even r) - r\<bar> \<le> 1 / 2"
  unfolding round_half_even_def by (auto simp: abs_if) linarith+

subsection \<open>Evaluation of the arithmetic\<close>

lemma floor_rat_numeral_div [simp]:
  "\<lfloor>numeral a / numeral b :: rat\<rfloor> = numeral a div numeral b"
  using floor_divide_of_int_eq [of "numeral a" "numeral b", where ?'a = rat] by simp

lemmas fl_eval =
  lit_def fl_def overflow_def round_to_def round_half_even_def pow2_def floor_log2.simps

section \<open>Properties\<close>

subsection \<open>Surplus formulas\<close>

lemma lit_08: "lit (8 / 10) = Fin (3602879701896397 / 4503599627370496)"
  by (simp add: fl_eval)

lemma lit_02: "lit (2 / 10) = Fin (3602879701896397 / 18014398509481984)"
  by (simp add: fl_eval)

lemma mock_surplus_3: "mock_surplus (Fin 3) = Fin (1351079888211149 / 562949953421312)"
  by (simp add: mock_surplus_def fl_eval)

lemma analytics_surplus_3: "analytics_surplus (Fin 3) = Fin (5404319552844595 / 2251799813685248)"
  by (simp add: analytics_surplus_def jsub_def fl_eval)

lemma one_credit:
  "an_surplus (computeAnalytics [txn d s 3 ''Credit'' c]) = analytics_surplus (Fin 3)"
  "investable_surplus (idle_cash (mock_analysis [txn d s 3 ''Credit'' c])) = mock_surplus (Fin 3)"
  by (simp_all add: computeAnalytics_def mock_analysis_def Let_def txn_def sum_amounts_def
      jsub_def fl_eval)

text \<open>
  Claim C5. The surplus of the fallback in \<open>Dashboard\<close> (\<open>balance * 0.8\<close>) and the
  surplus of \<open>computeAnalytics\<close> (\<open>balance - balance * 0.2\<close>) are different
  computations: for some balance they return different numbers. At the balance \<open>3\<close> the
  first gives \<open>2.4000000000000004\<close> and the second \<open>2.4\<close>, and so do the two
  functions on a statement with a single credit of \<open>3\<close>.
\<close>

theorem surplus_formulas_differ:
  "(\<exists>b. mock_surplus b \<noteq> analytics_surplus b)
   \<and> (\<exists>txns. investable_surplus (idle_cash (mock_analysis txns))
                \<noteq> an_surplus (computeAnalytics txns))"
proof
  have d: "mock_surplus (Fin 3) \<noteq> analytics_surplus (Fin 3)"
    by (simp add: mock_surplus_3 analytics_surplus_3)
  then show "\<exists>b. mock_surplus b \<noteq> analytics_surplus b" ..
  have "investable_surplus (idle_cash (mock_analysis [txn [] [] 3 ''Credit'' []]))
      \<noteq> an_surplus (computeAnalytics [txn [] [] 3 ''Credit'' []])"
    using d by (simp add: one_credit)
  then show "\<exists>txns. investable_surplus (idle_cash (mock_analysis txns))
                \<noteq> an_surplus (computeAnalytics txns)" ..
qed

lemma surplus_formulas_exact: "(b::rat) * (8 / 10) = b - b * (2 / 10)"
  by (simp add: algebra_simps)

lemma surplus_formulas_agree_on_mock:
  "mock_surplus (Fin 57536) = Fin (3163075050785997 / 68719476736)"
  "analytics_surplus (Fin 57536) = Fin (3163075050785997 / 68719476736)"
  by (simp_all add: mock_surplus_def analytics_surplus_def jsub_def fl_eval)

subsection \<open>The fallback summary\<close>

lemma mock_debits_sum:
  "sum_amounts (filter (\<lambda>t. t_type t = ''Debit'') MOCK_TRANSACTIONS) = Fin 42717"
  by (simp add: MOCK_TRANSACTIONS_def txn_def sum_amounts_def fl_eval)

lemma mock_credits_sum:
  "sum_amounts (filter (\<lambda>t. t_type t = ''Credit'') MOCK_TRANSACTIONS) = Fin 100253"
  by (simp add: MOCK_TRANSACTIONS_def txn_def sum_amounts_def fl_eval)

lemma mock_catMap:
  "catMap_of (filter (\<lambda>t. t_type t = ''Debit'') MOCK_TRANSACTIONS) =
     [(''Dining & Local Eats'', Fin 3455), (''Investments'', Fin 20000),
      (''Commute & Transport'', Fin 935), (''Subscriptions'', Fin 1087),
      (''Utilities & Housing'', Fin 7400), (''Shopping & Lifestyle'', Fin 2340),
      (''Insurance & Protection'', Fin 4500), (''Family & Transfers'', Fin 3000)]"
  by (simp add: MOCK_TRANSACTIONS_def txn_def catMap_of_def catMap_step_def or_else_def fl_eval)

lemma mock_totals:
  "map c_total (categories (mock_analysis MOCK_TRANSACTIONS)) =
     [Fin 20000, Fin 7400, Fin 4500, Fin 3455, Fin 3000, Fin 2340, Fin 1087, Fin 935]"
  by (simp add: mock_analysis_def Let_def mock_catMap sort_by_def jsub_def fl_eval)

lemma mock_idle_cash:
  "monthly_burn (idle_cash (mock_analysis MOCK_TRANSACTIONS)) = Fin 42717"
  "total_income (idle_cash (mock_analysis MOCK_TRANSACTIONS)) = Fin 100253"
  "balance (idle_cash (mock_analysis MOCK_TRANSACTIONS)) = Fin 57536"
  by (simp_all add: mock_analysis_def Let_def mock_debits_sum mock_credits_sum jsub_def fl_eval)

lemma sum_totals_map: "sum_totals cs = foldl jadd (Fin 0) (map c_total cs)"
  by (simp add: sum_totals_def foldl_map)

lemma mock_sum_totals: "sum_totals (categories (mock_analysis MOCK_TRANSACTIONS)) = Fin 42717"
  by (simp add: sum_totals_map mock_totals fl_eval)

text \<open>
  Claim C6. For the Analysis Result that \<open>Dashboard\<close> builds when no data is present:
  the totals of the categories add up to \<open>monthly_burn\<close>, \<open>monthly_burn\<close> is the sum of
  the Debit amounts, \<open>total_income\<close> the sum of the Credit amounts, and \<open>balance\<close> is
  \<open>total_income\<close> minus \<open>monthly_burn\<close>.
\<close>

theorem mock_fallback_totals:
  "\<exists>a. Dashboard_analysis JNull = Inr a
     \<and> sum_totals (categories a) = monthly_burn (idle_cash a)
     \<and> monthly_burn (idle_cash a) =
         sum_amounts (filter (\<lambda>t. t_type t = ''Debit'') (transactions a))
     \<and> total_income (idle_cash a) =
         sum_amounts (filter (\<lambda>t. t_type t = ''Credit'') (transactions a))
     \<and> balance (idle_cash a) = jsub (total_income (idle_cash a)) (monthly_burn (idle_cash a))
     \<and> monthly_burn (idle_cash a) = Fin 42717
     \<and> total_income (idle_cash a) = Fin 100253
     \<and> balance (idle_cash a) = Fin 57536"
proof -
  let ?a = "mock_analysis MOCK_TRANSACTIONS"
  have 1: "Dashboard_analysis JNull = Inr ?a"
    by (simp add: Dashboard_analysis_def)
  have 2: "transactions ?a = MOCK_TRANSACTIONS"
    by (simp add: mock_analysis_def Let_def)
  have 3: "jsub (Fin 100253) (Fin 42717) = Fin 57536"
    by (simp add: jsub_def fl_eval)
  show ?thesis
    using 1 2 3 mock_sum_totals mock_idle_cash mock_debits_sum mock_credits_sum
    by (intro exI [of _ ?a]) simp
qed

subsection \<open>The Net Balance card\<close>

lemma replicate_numeral: "replicate (numeral k) x = x # replicate (pred_numeral k) x"
  by (simp add: numeral_eq_Suc)

lemma toLocaleString_large:
  "toLocaleString (Fin (2 ^ 64)) = ''1,84,46,74,40,73,70,95,52,000''"
  by (simp add: integer_digits_def group_enIN_def shortest_def shortest_from.simps
      floor_log10.simps pick_def rounds_to_def pow10_def normal_def digits.simps
      replicate_numeral fl_eval)

lemma fmt_5: "fmt (Fin 5) = rupee @ ''5''"
  by (simp add: fmt_def group_enIN_def digits.simps)

lemma fmt_7: "fmt (Fin 7) = rupee @ ''7''"
  by (simp add: fmt_def group_enIN_def digits.simps)

lemma fmt_57536: "fmt (Fin 57536) = rupee @ ''57,536''"
  by (simp add: fmt_def group_enIN_def digits.simps)

lemma Dashboard_kpi_net:
  assumes "Dashboard_analysis data = Inr a" and "Dashboard toFixed1 data = Inr v"
  shows "kpi_shown ''Net Balance'' v = Some (fmt (balance (idle_cash a)))"
  using assms by (auto simp: Dashboard_def kpi_shown_def kpis_def)

text \<open>
  Claim C1 as stated fails: for an Analysis Result with income \<open>10\<close>, burn \<open>3\<close> and
  balance \<open>5\<close> the card shows the balance \<open>5\<close>, not income minus burn.
\<close>

theorem net_balance_counterexample:
  "\<not> (\<forall>toFixed1 a v. Dashboard toFixed1 (JAnalysis a) = Inr v \<longrightarrow>
         kpi_shown ''Net Balance'' v
           = Some (fmt (jsub (total_income (idle_cash a)) (monthly_burn (idle_cash a)))))"
proof
  assume h: "\<forall>toFixed1 a v. Dashboard toFixed1 (JAnalysis a) = Inr v \<longrightarrow>
         kpi_shown ''Net Balance'' v
           = Some (fmt (jsub (total_income (idle_cash a)) (monthly_burn (idle_cash a))))"
  let ?a = "result_with 10 3 5 []"
  obtain v where v: "Dashboard (\<lambda>_. []) (JAnalysis ?a) = Inr v"
    by (simp add: Dashboard_def Dashboard_analysis_def)
  have "kpi_shown ''Net Balance'' v = Some (fmt (balance (idle_cash ?a)))"
    using v by (intro Dashboard_kpi_net [of "JAnalysis ?a"]) (simp_all add: Dashboard_analysis_def)
  then have shown: "kpi_shown ''Net Balance'' v = Some (rupee @ ''5'')"
    by (simp add: result_with_def fmt_5)
  have "jsub (total_income (idle_cash ?a)) (monthly_burn (idle_cash ?a)) = Fin 7"
    by (simp add: result_with_def jsub_def fl_eval)
  with h v have "kpi_shown ''Net Balance'' v = Some (rupee @ ''7'')"
    by (simp add: fmt_7)
  with shown show False by simp
qed

text \<open>
  Claim C1, amended. The card "Net Balance" shows the formatted field
  \<open>idle_cash.balance\<close> of the Analysis Result that is rendered. That is income minus
  burn whenever the field equals their difference, and it does so for the fallback that
  \<open>Dashboard\<close> builds when no data is present.
\<close>

theorem net_balance_kpi:
  assumes "Dashboard_analysis data = Inr a" and "Dashboard toFixed1 data = Inr v"
  shows "kpi_shown ''Net Balance'' v = Some (fmt (balance (idle_cash a)))
     \<and> (balance (idle_cash a) = jsub (total_income (idle_cash a)) (monthly_burn (idle_cash a))
          \<longrightarrow> kpi_shown ''Net Balance'' v
                = Some (fmt (jsub (total_income (idle_cash a)) (monthly_burn (idle_cash a)))))
     \<and> (data = JNull \<or> data = JFalsy
          \<longrightarrow> balance (idle_cash a)
                = jsub (total_income (idle_cash a)) (monthly_burn (idle_cash a)))"
proof -
  have 1: "kpi_shown ''Net Balance'' v = Some (fmt (balance (idle_cash a)))"
    using assms by (rule Dashboard_kpi_net)
  have 2: "balance (idle_cash a) = jsub (total_income (idle_cash a)) (monthly_burn (idle_cash a))"
    if "data = JNull \<or> data = JFalsy"
    using that assms(1) by (auto simp: Dashboard_analysis_def mock_analysis_def Let_def)
  show ?thesis using 1 2 by simp
qed

text \<open>
  With no data the card shows the balance of the example transactions.
\<close>

theorem net_balance_kpi_witness:
  "Dashboard_analysis JNull = Inr (mock_analysis MOCK_TRANSACTIONS)
   \<and> Dashboard (\<lambda>_. []) JNull = Inr (projr (Dashboard (\<lambda>_. []) JNull))
   \<and> kpi_shown ''Net Balance'' (projr (Dashboard (\<lambda>_. []) JNull)) = Some (rupee @ ''57,536'')"
proof -
  have 1: "Dashboard_analysis JNull = Inr (mock_analysis MOCK_TRANSACTIONS)"
    by (simp add: Dashboard_analysis_def)
  have 2: "Dashboard (\<lambda>_. []) JNull = Inr (projr (Dashboard (\<lambda>_. []) JNull))"
    by (simp add: Dashboard_def Dashboard_analysis_def)
  show ?thesis
    using 1 2 net_balance_kpi [OF 1 2] by (simp add: mock_idle_cash fmt_57536)
qed

subsection \<open>Category bars\<close>

lemma maxCat_truthy: "truthy (maxCat cs)"
  by (cases cs) (simp_all add: maxCat_def or_else_def)

text \<open>
  Claim C7 as stated fails: when the first total is \<open>0\<close> the denominator is \<open>1\<close>, and
  the bar of that category has width \<open>0\<close> while \<open>(0 / 0) * 100\<close> is NaN.
\<close>

theorem bar_width_counterexample:
  "\<not> (\<forall>cs. first_is_largest cs \<longrightarrow>
         cat_bars cs = map (\<lambda>c. jmul (jdiv (c_total c) (c_total (hd cs))) (Fin 100)) cs)"
proof
  assume h: "\<forall>cs. first_is_largest cs \<longrightarrow>
         cat_bars cs = map (\<lambda>c. jmul (jdiv (c_total c) (c_total (hd cs))) (Fin 100)) cs"
  have "first_is_largest [cat ''Dining'' 0]"
    by (simp add: first_is_largest_def cat_def)
  with h have "cat_bars [cat ''Dining'' 0]
      = map (\<lambda>c. jmul (jdiv (c_total c) (c_total (hd [cat ''Dining'' 0]))) (Fin 100))
          [cat ''Dining'' 0]"
    by blast
  moreover have "cat_bars [cat ''Dining'' 0] = [Fin 0]"
    by (simp add: cat_bars_def cat_bar_width_def maxCat_def or_else_def cat_def fl_eval)
  moreover have "map (\<lambda>c. jmul (jdiv (c_total c) (c_total (hd [cat ''Dining'' 0]))) (Fin 100))
          [cat ''Dining'' 0] = [NaN]"
    by (simp add: cat_def signed_inf_def)
  ultimately show False by simp
qed

text \<open>
  Claim C7, amended. For every category list whose first total is neither \<open>0\<close> nor NaN,
  the width of each bar is \<open>(total / first total) * 100\<close> percent. When the first total
  is \<open>0\<close> or NaN the denominator is \<open>1\<close> instead, and the width of each bar is
  \<open>(total / 1) * 100\<close> percent.
\<close>

theorem bar_width_relative:
  "(truthy (c_total c0) \<longrightarrow>
      maxCat (c0 # cs) = c_total c0
      \<and> cat_bars (c0 # cs)
          = map (\<lambda>c. jmul (jdiv (c_total c) (c_total c0)) (Fin 100)) (c0 # cs))
   \<and> (\<not> truthy (c_total c0) \<longrightarrow>
      maxCat (c0 # cs) = Fin 1
      \<and> cat_bars (c0 # cs) = map (\<lambda>c. jmul (jdiv (c_total c) (Fin 1)) (Fin 100)) (c0 # cs))"
  by (simp add: cat_bars_def cat_bar_width_def maxCat_def or_else_def)

text \<open>
  For the totals \<open>100\<close> and \<open>50\<close> the bars are \<open>100\<close> and \<open>50\<close> percent wide. For the
  totals \<open>0\<close> and \<open>-50\<close>, the first again the largest, the denominator is \<open>1\<close> and the
  bars are \<open>0\<close> and \<open>-5000\<close> percent wide.
\<close>

theorem bar_width_relative_witness:
  "truthy (c_total (cat ''Rent'' 100))
   \<and> first_is_largest [cat ''Rent'' 100, cat ''Food'' 50]
   \<and> cat_bars [cat ''Rent'' 100, cat ''Food'' 50] = [Fin 100, Fin 50]
   \<and> \<not> truthy (c_total (cat ''Rent'' 0))
   \<and> first_is_largest [cat ''Rent'' 0, cat ''Refund'' (- 50)]
   \<and> maxCat [cat ''Rent'' 0, cat ''Refund'' (- 50)] = Fin 1
   \<and> cat_bars [cat ''Rent'' 0, cat ''Refund'' (- 50)] = [Fin 0, Fin (- 5000)]"
proof -
  have t: "truthy (c_total (cat ''Rent'' 100))"
    by (simp add: cat_def)
  have l: "first_is_largest [cat ''Rent'' 100, cat ''Food'' 50]"
    by (simp add: first_is_largest_def cat_def)
  have b: "cat_bars [cat ''Rent'' 100, cat ''Food'' 50] = [Fin 100, Fin 50]"
    using t bar_width_relative [of "cat ''Rent'' 100" "[cat ''Food'' 50]"]
    by (simp add: cat_def fl_eval)
  have t0: "\<not> truthy (c_total (cat ''Rent'' 0))"
    by (simp add: cat_def)
  have l0: "first_is_largest [cat ''Rent'' 0, cat ''Refund'' (- 50)]"
    by (simp add: first_is_largest_def cat_def)
  have b0: "maxCat [cat ''Rent'' 0, cat ''Refund'' (- 50)] = Fin 1
      \<and> cat_bars [cat ''Rent'' 0, cat ''Refund'' (- 50)] = [Fin 0, Fin (- 5000)]"
    using t0 bar_width_relative [of "cat ''Rent'' 0" "[cat ''Refund'' (- 50)]"]
    by (simp add: cat_def fl_eval)
  show ?thesis
    using t l b t0 l0 b0 by simp
qed

text \<open>
  Claim C10. With an empty category list the denominator \<open>maxCat\<close> is \<open>1\<close>, so it is
  not zero, no bar is computed, and the insight is the fixed message.
\<close>

theorem empty_categories_safe:
  assumes "Dashboard_analysis data = Inr a" and "Dashboard toFixed1 data = Inr v"
    and "categories a = []"
  shows "v_maxCat v = Fin 1 \<and> truthy (v_maxCat v) \<and> v_bars v = []
     \<and> v_top_spend v = ''No spending patterns detected yet.''"
  using assms
  by (auto simp: Dashboard_def maxCat_def cat_bars_def top_spend_text_def)

theorem empty_categories_safe_witness:
  "Dashboard_analysis (JAnalysis (result_with 10 3 7 [])) = Inr (result_with 10 3 7 [])
   \<and> categories (result_with 10 3 7 []) = []
   \<and> (\<exists>v. Dashboard (\<lambda>_. []) (JAnalysis (result_with 10 3 7 [])) = Inr v
        \<and> v_maxCat v = Fin 1 \<and> v_bars v = []
        \<and> v_top_spend v = ''No spending patterns detected yet.'')"
proof -
  let ?a = "result_with 10 3 7 []"
  have 1: "Dashboard_analysis (JAnalysis ?a) = Inr ?a"
    by (simp add: Dashboard_analysis_def)
  obtain v where 2: "Dashboard (\<lambda>_. []) (JAnalysis ?a) = Inr v"
    by (simp add: Dashboard_def Dashboard_analysis_def)
  have 3: "categories ?a = []"
    by (simp add: result_with_def)
  show ?thesis
    using 1 2 3 empty_categories_safe [OF 1 2 3] by simp
qed

subsection \<open>File validation\<close>

text \<open>
  Claim C4. A file whose name does not end in \<open>.pdf\<close> and whose type is not
  \<open>application/pdf\<close> sets the validation message and clears the stored file: the button
  is disabled and a click hands no file to \<open>onAnalyze\<close>, so no request is made. A drop
  goes through the same handler.
\<close>

theorem accept_rejects_non_pdf:
  assumes "\<not> endsWith (f_name f) ''.pdf''" and "f_type f \<noteq> ''application/pdf''"
  shows "u_error (accept (Some f) u) = unsupported_message
     \<and> u_error (accept (Some f) u) \<noteq> []
     \<and> u_file (accept (Some f) u) = None
     \<and> analyze_disabled (accept (Some f) u)
     \<and> analyze_click (accept (Some f) u) = None
     \<and> onDrop (Some f) u = accept (Some f) (u\<lparr>u_over := False\<rparr>)"
  using assms
  by (simp add: accept_def analyze_disabled_def analyze_click_def unsupported_message_def
      onDrop_def)

theorem accept_rejects_non_pdf_witness:
  "\<not> endsWith (f_name notes_txt) ''.pdf'' \<and> f_type notes_txt \<noteq> ''application/pdf''
   \<and> u_error (accept (Some notes_txt) upload_initial) = unsupported_message
   \<and> u_file (accept (Some notes_txt) upload_initial) = None
   \<and> analyze_click (accept (Some notes_txt) upload_initial) = None"
proof -
  have 1: "\<not> endsWith (f_name notes_txt) ''.pdf''"
    by (simp add: notes_txt_def endsWith_def)
  have 2: "f_type notes_txt \<noteq> ''application/pdf''"
    by (simp add: notes_txt_def)
  show ?thesis
    using 1 2 accept_rejects_non_pdf [OF 1 2, of upload_initial] by simp
qed

text \<open>
  Claim C9. The validation is a disjunction: a file is stored without error as soon as
  its name ends in \<open>.pdf\<close> or its type is \<open>application/pdf\<close>, and a click then hands it
  to \<open>onAnalyze\<close>.
\<close>

theorem accept_is_disjunction:
  assumes "endsWith (f_name f) ''.pdf'' \<or> f_type f = ''application/pdf''"
  shows "accept (Some f) u = u\<lparr>u_error := [], u_file := Some f\<rparr>
     \<and> \<not> analyze_disabled (accept (Some f) u)
     \<and> analyze_click (accept (Some f) u) = Some f"
  using assms
  by (auto simp: accept_def analyze_disabled_def analyze_click_def)

text \<open>
  A file named \<open>statement.pdf\<close> of type \<open>text/plain\<close> is accepted.
\<close>

theorem accept_is_disjunction_witness:
  "(endsWith (f_name statement_pdf) ''.pdf'' \<or> f_type statement_pdf = ''application/pdf'')
   \<and> f_type statement_pdf \<noteq> ''application/pdf''
   \<and> u_error (accept (Some statement_pdf) upload_initial) = []
   \<and> analyze_click (accept (Some statement_pdf) upload_initial) = Some statement_pdf"
proof -
  have 1: "endsWith (f_name statement_pdf) ''.pdf'' \<or> f_type statement_pdf = ''application/pdf''"
    by (simp add: statement_pdf_def endsWith_def)
  have 2: "f_type statement_pdf \<noteq> ''application/pdf''"
    by (simp add: statement_pdf_def)
  show ?thesis
    using 1 2 accept_is_disjunction [OF 1, of upload_initial]
    by (simp add: analyze_click_def)
qed

subsection \<open>Reset\<close>

lemma handleAnalyze_cases:
  assumes "(t, s') \<in> set (handleAnalyze e t0 f s)"
  shows "s' = setStage PARSING (s\<lparr>apiError := []\<rparr>)
     \<or> s' = setStage CLASSIFYING (setStage PARSING (s\<lparr>apiError := []\<rparr>))
     \<or> (\<exists>m s0. s' = catch m s0)
     \<or> (\<exists>d. s' = setStage DONE
              ((setStage CLASSIFYING (setStage PARSING (s\<lparr>apiError := []\<rparr>)))
                 \<lparr>analysisData := d\<rparr>))"
  using assms
  by (auto simp: handleAnalyze_def Let_def split: fetch_outcome.splits sum.splits if_splits)

lemma catch_fields:
  "stage (catch m s) = UPLOAD" "\<exists>u. uploadStage (catch m s) = Some u"
  by (simp_all add: catch_def setStage_def split: option.splits)

lemma reachable_invariant:
  assumes "reachable s"
  shows "(stage s = UPLOAD \<longleftrightarrow> uploadStage s \<noteq> None) \<and> (stage s \<noteq> UPLOAD \<longrightarrow> apiError s = [])"
  using assms
proof (induction rule: reachable.induct)
  case r_init
  show ?case by (simp add: App_initial_def)
next
  case (r_accept s u f)
  then show ?case by auto
next
  case (r_over s u b)
  then show ?case by auto
next
  case (r_analyze s u f t s' e t0)
  from handleAnalyze_cases [OF r_analyze.hyps(4)] show ?case
    by (auto simp: setStage_def catch_fields)
next
  case (r_reset s)
  then show ?case by (simp add: onReset_def setStage_def split: option.splits)
qed

text \<open>
  Claim C8. A reset from the dashboard sets the stage to \<open>UPLOAD\<close> and
  \<open>analysisData\<close> to \<open>null\<close>; the upload screen mounts afresh with no file, and the
  application is in its initial state.
\<close>

theorem reset_returns_to_initial:
  assumes "reachable s" and "stage s = DONE"
  shows "stage (onReset s) = UPLOAD \<and> analysisData (onReset s) = JNull
     \<and> uploadStage (onReset s) = Some upload_initial
     \<and> map_option u_file (uploadStage (onReset s)) = Some None
     \<and> onReset s = App_initial"
proof -
  from reachable_invariant [OF assms(1)] assms(2)
  have u: "uploadStage s = None" and e: "apiError s = []"
    by auto
  have "onReset s = App_initial"
    using u e by (simp add: onReset_def setStage_def App_initial_def)
  then show ?thesis
    by (simp add: App_initial_def upload_initial_def)
qed

lemma selected_reachable: "reachable selected"
  unfolding selected_def
  by (rule r_accept [OF r_init]) (simp add: App_initial_def)

lemma final_ok_run:
  "final (handleAnalyze (instant_backend ok_response) 0 statement_pdf selected)
     = \<lparr>stage = DONE, analysisData = JAnalysis (result_with 10 3 7 []), apiError = [],
        uploadStage = None\<rparr>"
  by (simp add: final_def handleAnalyze_def instant_backend_def ok_response_def Let_def
      setStage_def selected_def App_initial_def)

theorem reset_returns_to_initial_witness:
  "reachable (final (handleAnalyze (instant_backend ok_response) 0 statement_pdf selected))
   \<and> stage (final (handleAnalyze (instant_backend ok_response) 0 statement_pdf selected)) = DONE
   \<and> analysisData (final (handleAnalyze (instant_backend ok_response) 0 statement_pdf selected))
       \<noteq> JNull
   \<and> onReset (final (handleAnalyze (instant_backend ok_response) 0 statement_pdf selected))
       = App_initial"
proof -
  let ?tr = "handleAnalyze (instant_backend ok_response) 0 statement_pdf selected"
  have click: "analyze_click (accept (Some statement_pdf) upload_initial) = Some statement_pdf"
    by (simp add: accept_def analyze_click_def statement_pdf_def endsWith_def)
  have mem: "(2500, final ?tr) \<in> set ?tr"
    by (simp add: final_def handleAnalyze_def instant_backend_def ok_response_def Let_def)
  have r: "reachable (final ?tr)"
    by (rule r_analyze [OF selected_reachable _ click mem]) (simp add: selected_def)
  have d: "stage (final ?tr) = DONE"
    by (simp add: final_ok_run)
  show ?thesis
    using r d reset_returns_to_initial [OF r d] by (simp add: final_ok_run)
qed

subsection \<open>The stages of a run\<close>

text \<open>
  Claim C3. When the request succeeds, \<open>handleAnalyze\<close> takes the stage from
  \<open>UPLOAD\<close> to \<open>PARSING\<close>, \<open>CLASSIFYING\<close> and \<open>DONE\<close> in this order and through no other
  stage; \<open>PARSING\<close> lasts at least 1500 ms and \<open>CLASSIFYING\<close> at least 1000 ms, whatever
  the latency of the backend.
\<close>

theorem stages_in_order:
  assumes "stage s = UPLOAD" and "fetch e f = Resolved r" and "ok r" and "body r = Inr data"
  shows "\<exists>t1 t2 s1 s2 s3.
           handleAnalyze e t0 f s = [(t0, s1), (t1, s2), (t2, s3)]
         \<and> [stage s, stage s1, stage s2, stage s3] = [UPLOAD, PARSING, CLASSIFYING, DONE]
         \<and> t0 + 1500 \<le> t1 \<and> t1 + 1000 \<le> t2
         \<and> analysisData s3 = data"
proof -
  define t1 where "t1 = max (t0 + t_fetch e) (t0 + 1500 + lag1 e)"
  define t2 where "t2 = max (t1 + t_json e) (t1 + 1000 + lag2 e)"
  define s1 where "s1 = setStage PARSING (s\<lparr>apiError := []\<rparr>)"
  define s2 where "s2 = setStage CLASSIFYING s1"
  define s3 where "s3 = setStage DONE (s2\<lparr>analysisData := data\<rparr>)"
  have run: "handleAnalyze e t0 f s = [(t0, s1), (t1, s2), (t2, s3)]"
    using assms by (simp add: handleAnalyze_def Let_def t1_def t2_def s1_def s2_def s3_def)
  have stages: "[stage s, stage s1, stage s2, stage s3] = [UPLOAD, PARSING, CLASSIFYING, DONE]"
    using assms(1) by (simp add: s1_def s2_def s3_def setStage_def)
  have times: "t0 + 1500 \<le> t1" "t1 + 1000 \<le> t2"
    by (simp_all add: t1_def t2_def)
  have "analysisData s3 = data"
    by (simp add: s3_def setStage_def)
  with run stages times show ?thesis by blast
qed

text \<open>
  A backend without latency: the stages are set at 0, 1500 and 2500 ms.
\<close>

theorem stages_in_order_witness:
  "stage selected = UPLOAD
   \<and> fetch (instant_backend ok_response) statement_pdf = Resolved ok_response
   \<and> ok ok_response
   \<and> body ok_response = Inr (JAnalysis (result_with 10 3 7 []))
   \<and> map (\<lambda>(t, s). (t, stage s))
        (handleAnalyze (instant_backend ok_response) 0 statement_pdf selected)
       = [(0, PARSING), (1500, CLASSIFYING), (2500, DONE)]"
proof -
  have 1: "stage selected = UPLOAD"
    by (simp add: selected_def App_initial_def)
  have 2: "fetch (instant_backend ok_response) statement_pdf = Resolved ok_response"
    by (simp add: instant_backend_def)
  have 3: "ok ok_response"
    by (simp add: ok_response_def)
  have 4: "body ok_response = Inr (JAnalysis (result_with 10 3 7 []))"
    by (simp add: ok_response_def)
  have 5: "map (\<lambda>(t, s). (t, stage s))
        (handleAnalyze (instant_backend ok_response) 0 statement_pdf selected)
       = [(0, PARSING), (1500, CLASSIFYING), (2500, DONE)]"
    using stages_in_order [OF 1 2 3 4, of 0]
    by (auto simp: handleAnalyze_def Let_def instant_backend_def ok_response_def)
  show ?thesis using 1 2 3 4 5 by simp
qed

subsection \<open>A response that is not ok\<close>



text \<open>
  Bodies of three kinds: \<open>{ "detail": 7 }\<close> shows \<open>7\<close>, a list of objects as a
  validation error carries it shows \<open>[object Object]\<close>, and \<open>{ "detail": [] }\<close>, whose
  conversion is the empty string, shows the text of the \<open>catch\<close> block.
\<close>

lemma number_to_string_7: "number_to_string (Fin 7) = ''7''"
  by (simp add: number_to_string.simps shortest_def shortest_from.simps floor_log10.simps
      pick_def rounds_to_def pow10_def normal_def layout_def digits.simps fl_eval)

lemma error_message_examples:
  "error_message (error_response 400 (Some (VNum (Fin 7)))) = ''7''"
  "error_message (error_response 422 (Some (VArr [VObj [(''msg'', VStr ''field required'')]])))
     = ''[object Object]''"
  "error_message (error_response 400 (Some (VArr []))) = []"
  "error_message (error_response 500 (Some (VStr []))) = ''Server error 500''"
  "error_message (error_response 500 None) = ''Server error 500''"
  by (simp_all add: error_message_def error_response_def number_to_string_7 digits.simps)




end
